theory Spec2Isabelle
  imports Complex_Main "HOL-Library.Word"
begin

unbundle bit_operations_syntax

section \<open>A BLE GATT peripheral: the two MicroPython programs\<close>

text \<open>
  The repository holds two MicroPython programs for a NUCLEO-WB55 board.
  \<^item> \<^verbatim>\<open>ble_sensor.py\<close>: class \<^verbatim>\<open>BLESensor\<close>, the Blue-ST service with a temperature
    characteristic and a switch characteristic that drives the red LED.
  \<^item> \<^verbatim>\<open>main.py\<close>: class \<^verbatim>\<open>BLEenvironment\<close>, the SIG environmental sensing service, and
    the periodic loop \<^verbatim>\<open>demo\<close> that reads an MCP9808 sensor and publishes its value.

  Both classes keep the connected centrals in a Python \<^verbatim>\<open>set\<close> and talk to the BLE
  stack through \<^verbatim>\<open>self._ble\<close>. The stack, the LEDs, the display and the console are
  outside the programs: every call to them is recorded, in program order, in a trace
  of effects that is part of the state. The stack's characteristic storage is a
  function from value handles to byte strings.

  An exception of Python leaves behind whatever the callback had already done, so a
  callback returns either the new state or the pair of the exception and the state at
  the point of the raise.
\<close>

subsection \<open>Bytes and \<^verbatim>\<open>struct.pack\<close>\<close>

type_synonym byte = "8 word"
type_synonym float32 = "32 word"

text \<open>
  \<^verbatim>\<open>pack('>BBI6B', v, d, m, *mac)\<close>: two unsigned bytes, a big-endian unsigned 32-bit
  integer and six unsigned bytes. The arguments are typed by their field widths; the
  constants of the source are all within them. \<^verbatim>\<open>pack\<close> raises \<^verbatim>\<open>struct.error\<close> when
  the number of arguments is not the number of fields.
\<close>

datatype py_error = KeyError | IndexError | OSError | StructError

definition be_u32 :: "32 word \<Rightarrow> byte list" where
  "be_u32 w = [ucast (drop_bit 24 w), ucast (drop_bit 16 w), ucast (drop_bit 8 w), ucast w]"

definition le_u16 :: "16 word \<Rightarrow> byte list" where
  "le_u16 w = [ucast w, ucast (drop_bit 8 w)]"

definition le_u32 :: "32 word \<Rightarrow> byte list" where
  "le_u32 w = [ucast w, ucast (drop_bit 8 w), ucast (drop_bit 16 w), ucast (drop_bit 24 w)]"

definition pack_gt_BBI6B :: "byte \<Rightarrow> byte \<Rightarrow> 32 word \<Rightarrow> byte list \<Rightarrow> py_error + byte list" where
  "pack_gt_BBI6B v d m mac =
     (if length mac = 6 then Inr ([v, d] @ be_u32 m @ mac) else Inl StructError)"

text \<open>\<^verbatim>\<open>pack('<HB', h, b)\<close>: a little-endian unsigned 16-bit integer, then a byte.\<close>

definition pack_lt_HB :: "16 word \<Rightarrow> byte \<Rightarrow> byte list" where
  "pack_lt_HB h b = le_u16 h @ [b]"

text \<open>
  \<^verbatim>\<open>pack('<f', x)\<close>: the four bytes of the IEEE-754 single-precision value, least
  significant first. MicroPython on this board computes in single precision, so a
  float is modelled by its 32-bit pattern: bit 31 the sign, bits 30 to 23 the biased
  exponent, bits 22 to 0 the fraction.
\<close>

definition pack_lt_f :: "float32 \<Rightarrow> byte list" where
  "pack_lt_f x = le_u32 x"

text \<open>The rational number a pattern with a normal exponent stands for.\<close>

definition float32_value :: "float32 \<Rightarrow> rat" where
  "float32_value x =
     (let s = (if bit x 31 then - 1 else 1);
          e = int (unat (take_bit 8 (drop_bit 23 x)));
          f = of_nat (unat (take_bit 23 x)) / 2 ^ 23
      in if e < 127 then s * (1 + f) / 2 ^ nat (127 - e)
         else s * (1 + f) * 2 ^ nat (e - 127))"

text \<open>
  The float \<open>n * 0.0625\<close> for an integer \<open>n\<close> of fewer than 24 bits, which single
  precision holds exactly: \<open>k\<close> is the position of the leading bit of \<open>|n|\<close>, the
  biased exponent is \<open>k - 4 + 127\<close> and the fraction is what follows the leading bit.
\<close>

fun top_bit :: "nat \<Rightarrow> nat" where
  "top_bit m = (if m < 2 then 0 else Suc (top_bit (m div 2)))"

declare top_bit.simps [simp del]

definition float32_of_sixteenths :: "int \<Rightarrow> float32" where
  "float32_of_sixteenths n =
     (if n = 0 then 0
      else let m = nat \<bar>n\<bar>; k = top_bit m;
               sign = (if n < 0 then 1 else 0);
               exponent = k + 123;
               fraction = m * 2 ^ (23 - k) - 2 ^ 23
           in word_of_nat (sign * 2 ^ 31 + exponent * 2 ^ 23 + fraction))"

subsection \<open>The advertising frame of the Blue-ST protocol\<close>

definition PROTOCOL_VERSION :: byte where
  "PROTOCOL_VERSION = 0x01"

definition DEVICE_ID :: byte where
  "DEVICE_ID = 0x80"

definition DEVICE_MAC :: "byte list" where
  "DEVICE_MAC = [0x12, 0x34, 0x56, 0x78, 0x9A, 0xBC]"

definition FEATURE_MASK :: "32 word" where
  "FEATURE_MASK = 0x20040000"

definition MANUFACTURER :: "py_error + byte list" where
  "MANUFACTURER = pack_gt_BBI6B PROTOCOL_VERSION DEVICE_ID FEATURE_MASK DEVICE_MAC"

subsection \<open>Events, exceptions and effects\<close>

text \<open>
  The events the stack delivers to \<^verbatim>\<open>_irq(event, data)\<close>: the event code and the tuple
  it comes with. \<open>CentralConnect\<close> is code 1 and \<open>CentralDisconnect\<close> code 2, both
  with \<^verbatim>\<open>(conn_handle, addr_type, addr)\<close>; \<open>GattsWrite\<close> is code 3 with
  \<^verbatim>\<open>(conn_handle, value_handle)\<close>; \<open>OtherEvent\<close> is any other code.
\<close>

datatype irq_event =
    CentralConnect int int "byte list"
  | CentralDisconnect int int "byte list"
  | GattsWrite int int
  | OtherEvent int

datatype message =
    Connecte_a_un_central
  | Deconnecte_du_central
  | Temperature_mesuree float32
  | Adresse_MAC
  | Connecte
  | Deconnecte
  | Erreur_lecture_temperature py_error

datatype effect =
    Gatts_read int
  | Gatts_write int "byte list"
  | Gatts_notify int int
  | Gatts_indicate int int
  | Gap_advertise int "byte list" bool
  | Led_bleu_on
  | Led_bleu_off
  | Led_rouge_on
  | Led_rouge_off
  | Print message
  | Oled_display_temperature float32
  | Sleep_ms int

subsection \<open>What both classes share\<close>

text \<open>
  The fields both classes have: the set of connected centrals and the advertising
  payload; and what they act on: the stack's characteristic storage and the trace of
  effects. Every call to the stack is taken to succeed.
\<close>

record ble_base =
  connections :: "int set"
  payload :: "byte list"
  storage :: "int \<Rightarrow> byte list"
  trace :: "effect list"

type_synonym 's result = "(py_error \<times> 's) + 's"

definition emit :: "effect \<Rightarrow> 'a ble_base_scheme \<Rightarrow> 'a ble_base_scheme" where
  "emit e s = s\<lparr>trace := trace s @ [e]\<rparr>"

definition gatts_write :: "int \<Rightarrow> byte list \<Rightarrow> 'a ble_base_scheme \<Rightarrow> 'a ble_base_scheme" where
  "gatts_write h v s = emit (Gatts_write h v) (s\<lparr>storage := (storage s)(h := v)\<rparr>)"

definition gatts_notify :: "int \<Rightarrow> int \<Rightarrow> 'a ble_base_scheme \<Rightarrow> 'a ble_base_scheme" where
  "gatts_notify c h s = emit (Gatts_notify c h) s"

definition gatts_indicate :: "int \<Rightarrow> int \<Rightarrow> 'a ble_base_scheme \<Rightarrow> 'a ble_base_scheme" where
  "gatts_indicate c h s = emit (Gatts_indicate c h) s"

text \<open>
  What the stack does, outside the programs, when a central writes a value: it stores
  the bytes in the characteristic, then delivers the write event.
\<close>

definition stack_store :: "int \<Rightarrow> byte list \<Rightarrow> 'a ble_base_scheme \<Rightarrow> 'a ble_base_scheme" where
  "stack_store h v s = s\<lparr>storage := (storage s)(h := v)\<rparr>"

text \<open>The effects a callback added to the trace of the state it started from.\<close>

definition new_effects :: "'a ble_base_scheme \<Rightarrow> 'a ble_base_scheme \<Rightarrow> effect list" where
  "new_effects s s' = drop (length (trace s)) (trace s')"

text \<open>The state a callback leaves behind, whether it returned or raised.\<close>

definition state_after :: "'s result \<Rightarrow> 's" where
  "state_after r = (case r of Inl (e, s) \<Rightarrow> s | Inr s \<Rightarrow> s)"

definition raised :: "'s result \<Rightarrow> py_error option" where
  "raised r = (case r of Inl (e, s) \<Rightarrow> Some e | Inr s \<Rightarrow> None)"

text \<open>Whether some \<open>a\<close> stands before some \<open>b\<close> in a trace.\<close>

fun occurs_before :: "'a \<Rightarrow> 'a \<Rightarrow> 'a list \<Rightarrow> bool" where
  "occurs_before a b [] = False"
| "occurs_before a b (x # xs) = (if x = a then b \<in> set xs else occurs_before a b xs)"

subsection \<open>\<^verbatim>\<open>ble_sensor.py\<close>: class \<^verbatim>\<open>BLESensor\<close>\<close>

record ble_sensor = ble_base +
  temperature_handle :: int
  switch_handle :: int
  led_bleu :: bool
  led_rouge :: bool

definition led_bleu_on :: "ble_sensor \<Rightarrow> ble_sensor" where
  "led_bleu_on s = emit Led_bleu_on (s\<lparr>led_bleu := True\<rparr>)"

definition led_bleu_off :: "ble_sensor \<Rightarrow> ble_sensor" where
  "led_bleu_off s = emit Led_bleu_off (s\<lparr>led_bleu := False\<rparr>)"

definition led_rouge_on :: "ble_sensor \<Rightarrow> ble_sensor" where
  "led_rouge_on s = emit Led_rouge_on (s\<lparr>led_rouge := True\<rparr>)"

definition led_rouge_off :: "ble_sensor \<Rightarrow> ble_sensor" where
  "led_rouge_off s = emit Led_rouge_off (s\<lparr>led_rouge := False\<rparr>)"

text \<open>
  \<^verbatim>\<open>_advertise(interval_us=500000)\<close>: starts advertising with the stored payload,
  connectable, then switches the blue LED off.
\<close>

definition advertise :: "ble_sensor \<Rightarrow> ble_sensor" where
  "advertise s = led_bleu_off (emit (Gap_advertise 500000 (payload s) True) s)"

text \<open>
  \<^verbatim>\<open>__init__\<close>: the two handles are what \<^verbatim>\<open>gatts_register_services\<close> returned, \<open>adv\<close>
  is what \<^verbatim>\<open>adv_payload\<close> built from the name and \<^verbatim>\<open>_MANUFACTURER\<close> (the second call
  builds the same payload again), \<open>st\<close> is the stack's storage and \<open>leds\<close> the state
  of the blue and the red LED before the call.
\<close>

definition BLESensor :: "int \<Rightarrow> int \<Rightarrow> byte list \<Rightarrow> (int \<Rightarrow> byte list) \<Rightarrow> bool \<times> bool \<Rightarrow> ble_sensor" where
  "BLESensor th sh adv st leds =
     emit (Print Adresse_MAC)
       (advertise \<lparr>connections = {}, payload = adv, storage = st, trace = [],
                   temperature_handle = th, switch_handle = sh,
                   led_bleu = fst leds, led_rouge = snd leds\<rparr>)"

text \<open>
  \<^verbatim>\<open>_irq\<close>. \<^verbatim>\<open>set.add\<close> of a present handle changes nothing; \<^verbatim>\<open>set.remove\<close> of an
  absent handle raises \<^verbatim>\<open>KeyError\<close> before anything else of the branch runs. In the
  write branch \<^verbatim>\<open>data_received[0]\<close> is evaluated as an argument of \<^verbatim>\<open>pack\<close>, before
  \<^verbatim>\<open>gatts_write\<close> is called, and raises \<^verbatim>\<open>IndexError\<close> on an empty value.
\<close>

fun irq :: "irq_event \<Rightarrow> ble_sensor \<Rightarrow> ble_sensor result" where
  "irq (CentralConnect conn_handle _ _) s =
     Inr (led_bleu_on (emit (Print Connecte_a_un_central)
            (s\<lparr>connections := insert conn_handle (connections s)\<rparr>)))"
| "irq (CentralDisconnect conn_handle _ _) s =
     (if conn_handle \<notin> connections s then Inl (KeyError, s)
      else Inr (emit (Print Deconnecte_du_central)
                  (advertise (s\<lparr>connections := connections s - {conn_handle}\<rparr>))))"
| "irq (GattsWrite conn_handle value_handle) s =
     (if conn_handle \<in> connections s \<and> value_handle = switch_handle s then
        (let s1 = emit (Gatts_read (switch_handle s)) s;
             data_received = storage s1 (switch_handle s1)
         in case data_received of
              [] \<Rightarrow> Inl (IndexError, s1)
            | b0 # _ \<Rightarrow>
                (let s2 = gatts_write (switch_handle s1) (pack_lt_HB 1000 b0) s1;
                     s3 = gatts_notify conn_handle (switch_handle s2) s2
                 in if b0 = 1 then Inr (led_rouge_on s3) else Inr (led_rouge_off s3)))
      else Inr s)"
| "irq (OtherEvent _) s = Inr s"

text \<open>
  \<^verbatim>\<open>set_data_temperature(temperature, notify)\<close>. The loop runs over the set in an
  order Python does not specify; the model takes the handles in increasing order. The
  \<^verbatim>\<open>print\<close> is read as part of the loop body, before the notify.
\<close>

fun notify_each :: "float32 \<Rightarrow> int list \<Rightarrow> ble_sensor \<Rightarrow> ble_sensor" where
  "notify_each temperature [] s = s"
| "notify_each temperature (conn_handle # rest) s =
     notify_each temperature rest
       (gatts_notify conn_handle (temperature_handle s)
          (emit (Print (Temperature_mesuree temperature)) s))"

definition set_data_temperature :: "float32 \<Rightarrow> bool \<Rightarrow> ble_sensor \<Rightarrow> ble_sensor" where
  "set_data_temperature temperature notify s =
     (let s1 = gatts_write (temperature_handle s) (pack_lt_f temperature) s
      in if notify then notify_each temperature (sorted_list_of_set (connections s1)) s1
         else s1)"

subsection \<open>\<^verbatim>\<open>main.py\<close>: class \<^verbatim>\<open>BLEenvironment\<close>\<close>

record ble_environment = ble_base +
  temp_handle :: int
  humi_handle :: int

definition env_advertise :: "ble_environment \<Rightarrow> ble_environment" where
  "env_advertise s = emit (Gap_advertise 500000 (payload s) True) s"

definition BLEenvironment :: "int \<Rightarrow> int \<Rightarrow> byte list \<Rightarrow> (int \<Rightarrow> byte list) \<Rightarrow> ble_environment" where
  "BLEenvironment th hh adv st =
     emit (Print Adresse_MAC)
       (env_advertise \<lparr>connections = {}, payload = adv, storage = st, trace = [],
                       temp_handle = th, humi_handle = hh\<rparr>)"

text \<open>
  \<^verbatim>\<open>_irq\<close> of this class handles the connect and the disconnect event only, and
  prints before it advertises again.
\<close>

fun env_irq :: "irq_event \<Rightarrow> ble_environment \<Rightarrow> ble_environment result" where
  "env_irq (CentralConnect conn_handle _ _) s =
     Inr (emit (Print Connecte) (s\<lparr>connections := insert conn_handle (connections s)\<rparr>))"
| "env_irq (CentralDisconnect conn_handle _ _) s =
     (if conn_handle \<notin> connections s then Inl (KeyError, s)
      else Inr (env_advertise (emit (Print Deconnecte)
                  (s\<lparr>connections := connections s - {conn_handle}\<rparr>))))"
| "env_irq (GattsWrite _ _) s = Inr s"
| "env_irq (OtherEvent _) s = Inr s"

text \<open>\<^verbatim>\<open>set_temp(temp_deg_c, notify=False, indicate=False)\<close>.\<close>

fun notify_indicate_each :: "bool \<Rightarrow> bool \<Rightarrow> int list \<Rightarrow> ble_environment \<Rightarrow> ble_environment" where
  "notify_indicate_each notify indicate [] s = s"
| "notify_indicate_each notify indicate (conn_handle # rest) s =
     (let s1 = (if notify then gatts_notify conn_handle (temp_handle s) s else s);
          s2 = (if indicate then gatts_indicate conn_handle (temp_handle s1) s1 else s1)
      in notify_indicate_each notify indicate rest s2)"

definition set_temp :: "float32 \<Rightarrow> bool \<Rightarrow> bool \<Rightarrow> ble_environment \<Rightarrow> ble_environment" where
  "set_temp temp_deg_c notify indicate s =
     (let s1 = gatts_write (temp_handle s) (pack_lt_f temp_deg_c) s
      in if notify \<or> indicate
         then notify_indicate_each notify indicate (sorted_list_of_set (connections s1)) s1
         else s1)"

subsection \<open>\<^verbatim>\<open>main.py\<close>: the sensor and the periodic loop\<close>

text \<open>
  \<^verbatim>\<open>read_mcp9808_temperature\<close>: \<open>bus\<close> is what \<^verbatim>\<open>i2c.readfrom_mem(address, 0x05, 2)\<close>
  gave, two bytes or an exception of the bus. The integer is Python's, unbounded.
\<close>

definition read_mcp9808_temperature :: "py_error + byte \<times> byte \<Rightarrow> py_error + float32" where
  "read_mcp9808_temperature bus =
     (case bus of
        Inl e \<Rightarrow> Inl e
      | Inr (d0, d1) \<Rightarrow>
          (let temp = push_bit 8 (uint d0 AND 0x1F) OR uint d1;
               temp = (if uint d0 AND 0x10 \<noteq> 0 then temp - push_bit 13 1 else temp)
           in Inr (float32_of_sixteenths temp)))"

text \<open>
  One turn of the \<^verbatim>\<open>while True\<close> loop of \<^verbatim>\<open>demo\<close>. \<open>bus\<close> is the answer of the sensor
  in this turn and \<open>oled\<close> the exception of the display, if it raises one. The
  \<^verbatim>\<open>except\<close> clause catches both and sets \<^verbatim>\<open>temperature = None\<close>.
\<close>

definition demo_iteration ::
    "py_error + byte \<times> byte \<Rightarrow> py_error option \<Rightarrow> ble_environment \<Rightarrow> ble_environment" where
  "demo_iteration bus oled s =
     (let (temperature, s1) =
            (case read_mcp9808_temperature bus of
               Inl e \<Rightarrow> (None, emit (Print (Erreur_lecture_temperature e)) s)
             | Inr t \<Rightarrow>
                 (let s0 = emit (Print (Temperature_mesuree t)) s
                  in case oled of
                       Some e \<Rightarrow> (None, emit (Print (Erreur_lecture_temperature e)) s0)
                     | None \<Rightarrow> (Some t, emit (Oled_display_temperature t) s0)));
          s2 = (case temperature of
                  Some t \<Rightarrow> set_temp t True False s1
                | None \<Rightarrow> s1)
      in emit (Sleep_ms 5000) s2)"

text \<open>
  The loop has no exit. The model runs it over a finite prefix of the answers of the
  sensor and the display, one pair for each turn.
\<close>

fun demo_loop :: "((py_error + byte \<times> byte) \<times> py_error option) list \<Rightarrow> ble_environment \<Rightarrow> ble_environment" where
  "demo_loop [] s = s"
| "demo_loop ((bus, oled) # rest) s = demo_loop rest (demo_iteration bus oled s)"

subsection \<open>Replaying events and publications\<close>

text \<open>
  The stack delivers the events one by one and survives an exception of the callback,
  so the next event finds the state the last one left behind.
\<close>

datatype operation = Event irq_event | Publish float32 bool bool

fun step :: "operation \<Rightarrow> ble_sensor \<Rightarrow> ble_sensor" where
  "step (Event ev) s = state_after (irq ev s)"
| "step (Publish t notify indicate) s = set_data_temperature t notify s"

fun env_step :: "operation \<Rightarrow> ble_environment \<Rightarrow> ble_environment" where
  "env_step (Event ev) s = state_after (env_irq ev s)"
| "env_step (Publish t notify indicate) s = set_temp t notify indicate s"

definition replay :: "operation list \<Rightarrow> ble_sensor \<Rightarrow> ble_sensor" where
  "replay ops s = fold step ops s"

definition env_replay :: "operation list \<Rightarrow> ble_environment \<Rightarrow> ble_environment" where
  "env_replay ops s = fold env_step ops s"

text \<open>
  What the registry should hold after a replay, in the words of the specification: the
  handles with a connect that no later disconnect of the same handle follows.
\<close>

fun connect_of :: "operation \<Rightarrow> int option" where
  "connect_of (Event (CentralConnect h _ _)) = Some h"
| "connect_of _ = None"

fun disconnect_of :: "operation \<Rightarrow> int option" where
  "disconnect_of (Event (CentralDisconnect h _ _)) = Some h"
| "disconnect_of _ = None"

definition unmatched_connects :: "operation list \<Rightarrow> int set" where
  "unmatched_connects ops =
     {h. \<exists>i<length ops. connect_of (ops ! i) = Some h
           \<and> Some h \<notin> set (map disconnect_of (drop (Suc i) ops))}"

text \<open>What one operation does to a set of handles: a connect adds, a disconnect removes.\<close>

definition registry_step :: "operation \<Rightarrow> int set \<Rightarrow> int set" where
  "registry_step x A =
     (case connect_of x of
        Some h \<Rightarrow> insert h A
      | None \<Rightarrow> (case disconnect_of x of Some h \<Rightarrow> A - {h} | None \<Rightarrow> A))"

text \<open>The storage of a stack that holds no value yet.\<close>

definition empty_storage :: "int \<Rightarrow> byte list" where
  "empty_storage h = []"

text \<open>The notifications among the effects.\<close>

fun is_notify :: "effect \<Rightarrow> bool" where
  "is_notify (Gatts_notify _ _) = True"
| "is_notify _ = False"

section \<open>Properties\<close>

lemmas stack_defs = emit_def gatts_write_def gatts_notify_def gatts_indicate_def
  led_bleu_on_def led_bleu_off_def led_rouge_on_def led_rouge_off_def
  advertise_def env_advertise_def

subsection \<open>The connection registry\<close>

lemma connections_notify_each [simp]:
  "connections (notify_each t cs s) = connections s"
  by (induction cs arbitrary: s) (simp_all add: stack_defs)

lemma connections_notify_indicate_each [simp]:
  "connections (notify_indicate_each n i cs s) = connections s"
  by (induction cs arbitrary: s) (simp_all add: stack_defs Let_def)

lemma connections_irq:
  "connections (state_after (irq ev s)) = registry_step (Event ev) (connections s)"
  by (cases ev)
    (auto simp: state_after_def registry_step_def stack_defs Let_def split: list.splits)

lemma connections_env_irq:
  "connections (state_after (env_irq ev s)) = registry_step (Event ev) (connections s)"
  by (cases ev) (auto simp: state_after_def registry_step_def stack_defs)

lemma connections_step: "connections (step x s) = registry_step x (connections s)"
proof (cases x)
  case (Event ev)
  then show ?thesis by (simp add: connections_irq)
next
  case (Publish t n i)
  then show ?thesis
    by (simp add: set_data_temperature_def registry_step_def Let_def stack_defs)
qed

lemma connections_env_step: "connections (env_step x s) = registry_step x (connections s)"
proof (cases x)
  case (Event ev)
  then show ?thesis by (simp add: connections_env_irq)
next
  case (Publish t n i)
  then show ?thesis
    by (simp add: set_temp_def registry_step_def Let_def stack_defs)
qed

lemma unmatched_connects_Nil [simp]: "unmatched_connects [] = {}"
  by (simp add: unmatched_connects_def)

text \<open>
  Appending an operation to a sequence acts on its unmatched connects as the
  operation acts on a registry: the index of the connect is either an old one, and
  then the new operation must not be its disconnect, or the new one.
\<close>

lemma unmatched_connects_snoc:
  "unmatched_connects (ops @ [x]) = registry_step x (unmatched_connects ops)"
proof -
  have split: "h \<in> unmatched_connects (ops @ [x]) \<longleftrightarrow>
      (h \<in> unmatched_connects ops \<and> disconnect_of x \<noteq> Some h) \<or> connect_of x = Some h" for h
  proof -
    have "h \<in> unmatched_connects (ops @ [x]) \<longleftrightarrow>
        (\<exists>i<Suc (length ops). connect_of ((ops @ [x]) ! i) = Some h
            \<and> Some h \<notin> set (map disconnect_of (drop (Suc i) (ops @ [x]))))"
      by (simp add: unmatched_connects_def)
    also have "\<dots> \<longleftrightarrow>
        (\<exists>i<length ops. connect_of ((ops @ [x]) ! i) = Some h
            \<and> Some h \<notin> set (map disconnect_of (drop (Suc i) (ops @ [x]))))
        \<or> (connect_of ((ops @ [x]) ! length ops) = Some h
            \<and> Some h \<notin> set (map disconnect_of (drop (Suc (length ops)) (ops @ [x]))))"
      by (auto simp: less_Suc_eq)
    also have "\<dots> \<longleftrightarrow>
        (h \<in> unmatched_connects ops \<and> disconnect_of x \<noteq> Some h) \<or> connect_of x = Some h"
      by (auto simp: unmatched_connects_def nth_append)
    finally show ?thesis .
  qed
  show ?thesis
  proof (cases "connect_of x")
    case None
    then show ?thesis
      using split by (cases "disconnect_of x") (auto simp: registry_step_def)
  next
    case (Some h)
    then have "disconnect_of x = None"
      by (cases x rule: connect_of.cases) simp_all
    with Some show ?thesis
      using split by (auto simp: registry_step_def)
  qed
qed

lemma connections_replay:
  "connections s = {} \<Longrightarrow> connections (replay ops s) = unmatched_connects ops"
  by (induction ops rule: rev_induct)
    (simp_all add: replay_def connections_step unmatched_connects_snoc)

lemma connections_env_replay:
  "connections s = {} \<Longrightarrow> connections (env_replay ops s) = unmatched_connects ops"
  by (induction ops rule: rev_induct)
    (simp_all add: env_replay_def connections_env_step unmatched_connects_snoc)

lemma connections_BLESensor [simp]: "connections (BLESensor th sh adv st leds) = {}"
  by (simp add: BLESensor_def stack_defs)

lemma connections_BLEenvironment [simp]: "connections (BLEenvironment th hh adv st) = {}"
  by (simp add: BLEenvironment_def stack_defs)

text \<open>
  C1. Both classes start with an empty registry. After any sequence of events and
  publications the registry holds exactly the handles with a connect that no later
  disconnect of the same handle follows, whatever write events and publications stand
  in between, and whether or not a callback raised on the way. A second connect of a
  handle leaves the registry as the first one left it.
\<close>

theorem registry_after_replay:
  "connections (replay ops (BLESensor th sh adv st leds)) = unmatched_connects ops
   \<and> connections (env_replay ops (BLEenvironment th' hh adv' st')) = unmatched_connects ops
   \<and> connections (step (Event (CentralConnect h a b)) (step (Event (CentralConnect h a' b')) s))
       = connections (step (Event (CentralConnect h a' b')) s)
   \<and> connections (env_step (Event (CentralConnect h a b)) (env_step (Event (CentralConnect h a' b')) e))
       = connections (env_step (Event (CentralConnect h a' b')) e)"
proof -
  have "connections (replay ops (BLESensor th sh adv st leds)) = unmatched_connects ops"
    by (rule connections_replay) simp
  moreover have "connections (env_replay ops (BLEenvironment th' hh adv' st')) = unmatched_connects ops"
    by (rule connections_env_replay) simp
  moreover have "connections (step (Event (CentralConnect h a b)) (step (Event (CentralConnect h a' b')) s))
       = connections (step (Event (CentralConnect h a' b')) s)"
    by (simp add: connections_step registry_step_def del: step.simps)
  moreover have "connections (env_step (Event (CentralConnect h a b)) (env_step (Event (CentralConnect h a' b')) e))
       = connections (env_step (Event (CentralConnect h a' b')) e)"
    by (simp add: connections_env_step registry_step_def del: env_step.simps)
  ultimately show ?thesis by blast
qed

text \<open>
  An instance: two centrals connect, the first writes, disconnects and is disconnected
  once more (which raises), a temperature is published, and the second connects again.
\<close>

theorem registry_after_replay_witness:
  "connections (replay [Event (CentralConnect 7 0 []), Event (CentralConnect 8 0 []),
        Event (GattsWrite 7 2), Event (CentralDisconnect 7 0 []), Publish 0 True False,
        Event (CentralDisconnect 7 0 []), Event (CentralConnect 8 0 [])]
      (BLESensor 1 2 [] empty_storage (False, False))) = {8}
   \<and> unmatched_connects [Event (CentralConnect 7 0 []), Event (CentralConnect 8 0 []),
        Event (GattsWrite 7 2), Event (CentralDisconnect 7 0 []), Publish 0 True False,
        Event (CentralDisconnect 7 0 []), Event (CentralConnect 8 0 [])] = {8}"
proof -
  let ?ops = "[Event (CentralConnect 7 0 []), Event (CentralConnect 8 0 []),
        Event (GattsWrite 7 2), Event (CentralDisconnect 7 0 []), Publish 0 True False,
        Event (CentralDisconnect 7 0 []), Event (CentralConnect 8 0 [])]"
  have run: "connections (replay ?ops (BLESensor 1 2 [] empty_storage (False, False))) = {8}"
    by (auto simp add: replay_def BLESensor_def state_after_def stack_defs
        set_data_temperature_def empty_storage_def Let_def)
  from registry_after_replay [of ?ops 1 2 "[]" empty_storage "(False, False)"]
  have "connections (replay ?ops (BLESensor 1 2 [] empty_storage (False, False)))
      = unmatched_connects ?ops"
    by blast
  with run show ?thesis by simp
qed

subsection \<open>The advertising frame\<close>

text \<open>
  C8. The manufacturer frame is the protocol version, the device identifier, the
  feature mask as a big-endian unsigned 32-bit integer and the six bytes of the MAC
  address, in this order; the feature mask is the sum of \<open>2 ^ 18\<close> (temperature) and
  \<open>2 ^ 29\<close> (switch), which is \<open>0x20040000\<close>.
\<close>

theorem manufacturer_frame:
  "MANUFACTURER = Inr ([PROTOCOL_VERSION, DEVICE_ID] @ be_u32 FEATURE_MASK @ DEVICE_MAC)
   \<and> MANUFACTURER = Inr [0x01, 0x80, 0x20, 0x04, 0x00, 0x00, 0x12, 0x34, 0x56, 0x78, 0x9A, 0xBC]
   \<and> length DEVICE_MAC = 6
   \<and> FEATURE_MASK = 2 ^ 18 + 2 ^ 29
   \<and> FEATURE_MASK = 0x20040000"
  by (simp add: MANUFACTURER_def pack_gt_BBI6B_def be_u32_def PROTOCOL_VERSION_def
      DEVICE_ID_def FEATURE_MASK_def DEVICE_MAC_def)

subsection \<open>The write branch of the callback\<close>

lemma pack_lt_HB_1000: "pack_lt_HB 1000 b = [0xE8, 0x03, b]"
  by (simp add: pack_lt_HB_def le_u16_def)

lemma irq_write_accepted:
  assumes "c \<in> connections s" and "storage s (switch_handle s) = b0 # rest"
  shows "irq (GattsWrite c (switch_handle s)) s =
     Inr (s\<lparr>storage := (storage s)(switch_handle s := [0xE8, 0x03, b0]),
            trace := trace s @ [Gatts_read (switch_handle s),
                                Gatts_write (switch_handle s) [0xE8, 0x03, b0],
                                Gatts_notify c (switch_handle s),
                                if b0 = 1 then Led_rouge_on else Led_rouge_off],
            led_rouge := (b0 = 1)\<rparr>)"
  using assms by (simp add: stack_defs pack_lt_HB_1000 Let_def)

lemma irq_write_empty:
  assumes "c \<in> connections s" and "storage s (switch_handle s) = []"
  shows "irq (GattsWrite c (switch_handle s)) s =
     Inl (IndexError, s\<lparr>trace := trace s @ [Gatts_read (switch_handle s)]\<rparr>)"
  using assms by (simp add: stack_defs Let_def)

subsection \<open>Disconnects of handles that are not connected\<close>

text \<open>
  C2, as the code has it. For every disconnect event whose handle is not in the
  registry (the empty registry included), \<^verbatim>\<open>set.remove\<close> raises \<^verbatim>\<open>KeyError\<close>, which
  leaves \<^verbatim>\<open>_irq\<close>: neither class catches it. The registry and everything else stay as
  they were, and advertising is not started again, since the raise comes first.
\<close>

theorem stale_disconnect_raises:
  assumes "h \<notin> connections s" and "h \<notin> connections e"
  shows "irq (CentralDisconnect h a b) s = Inl (KeyError, s)
     \<and> raised (irq (CentralDisconnect h a b) s) = Some KeyError
     \<and> connections (state_after (irq (CentralDisconnect h a b) s)) = connections s
     \<and> new_effects s (state_after (irq (CentralDisconnect h a b) s)) = []
     \<and> env_irq (CentralDisconnect h a b) e = Inl (KeyError, e)
     \<and> raised (env_irq (CentralDisconnect h a b) e) = Some KeyError
     \<and> connections (state_after (env_irq (CentralDisconnect h a b) e)) = connections e
     \<and> new_effects e (state_after (env_irq (CentralDisconnect h a b) e)) = []"
  using assms by (simp add: raised_def state_after_def new_effects_def)

text \<open>A disconnect right after construction, in both classes.\<close>

theorem stale_disconnect_raises_witness:
  "raised (irq (CentralDisconnect 7 0 []) (BLESensor 1 2 [] empty_storage (False, False)))
      = Some KeyError
   \<and> new_effects (BLESensor 1 2 [] empty_storage (False, False))
        (state_after (irq (CentralDisconnect 7 0 []) (BLESensor 1 2 [] empty_storage (False, False))))
      = []
   \<and> raised (env_irq (CentralDisconnect 7 0 []) (BLEenvironment 1 2 [] empty_storage))
      = Some KeyError"
  using stale_disconnect_raises [of 7 "BLESensor 1 2 [] empty_storage (False, False)"
      "BLEenvironment 1 2 [] empty_storage" 0 "[]"]
  by simp

text \<open>
  The claim as the specification states it (no exception leaves the callback, and
  advertising is started again) fails on the freshly constructed objects: the callback
  raises and returns the state it was given, with no effect added.
\<close>

theorem stale_disconnect_counterexample:
  "irq (CentralDisconnect 7 0 []) (BLESensor 1 2 [] empty_storage (False, False))
      = Inl (KeyError, BLESensor 1 2 [] empty_storage (False, False))
   \<and> env_irq (CentralDisconnect 7 0 []) (BLEenvironment 1 2 [] empty_storage)
      = Inl (KeyError, BLEenvironment 1 2 [] empty_storage)"
  by (simp add: BLESensor_def BLEenvironment_def stack_defs)

subsection \<open>Write events\<close>

text \<open>
  C3. A write event whose connection handle is not in the registry, or whose value
  handle is not the handle of the switch characteristic (the only characteristic with
  the write flag), does nothing: the callback returns the state it was given, without
  raising and with no effect added. The class of \<^verbatim>\<open>main.py\<close> ignores every write event.
\<close>

theorem write_ignored:
  assumes "c \<notin> connections s \<or> vh \<noteq> switch_handle s"
  shows "irq (GattsWrite c vh) s = Inr s
     \<and> raised (irq (GattsWrite c vh) s) = None
     \<and> new_effects s (state_after (irq (GattsWrite c vh) s)) = []
     \<and> env_irq (GattsWrite c vh) e = Inr e"
  using assms by (auto simp: raised_def state_after_def new_effects_def)

text \<open>The race: a central connects, disconnects, and its write of 1 arrives afterwards.\<close>

theorem write_ignored_witness:
  "7 \<notin> connections (stack_store 2 [1]
       (replay [Event (CentralConnect 7 0 []), Event (CentralDisconnect 7 0 [])]
          (BLESensor 1 2 [] empty_storage (False, False))))
   \<and> irq (GattsWrite 7 2) (stack_store 2 [1]
       (replay [Event (CentralConnect 7 0 []), Event (CentralDisconnect 7 0 [])]
          (BLESensor 1 2 [] empty_storage (False, False))))
     = Inr (stack_store 2 [1]
       (replay [Event (CentralConnect 7 0 []), Event (CentralDisconnect 7 0 [])]
          (BLESensor 1 2 [] empty_storage (False, False))))"
proof -
  let ?s = "stack_store 2 [1]
       (replay [Event (CentralConnect 7 0 []), Event (CentralDisconnect 7 0 [])]
          (BLESensor 1 2 [] empty_storage (False, False)))"
  have gone: "7 \<notin> connections ?s"
    by (simp add: stack_store_def replay_def BLESensor_def state_after_def stack_defs)
  with write_ignored [of 7 ?s 2] show ?thesis by blast
qed

text \<open>
  C4. With exactly \<open>h1\<close> connected and the value 1 written to the switch
  characteristic, the callback switches the red LED on once, leaves
  \<^verbatim>\<open>[1000 as little-endian u16][0x01]\<close> in the storage of the switch characteristic and
  notifies once, and that is \<open>h1\<close>.
\<close>

theorem switch_on_write:
  assumes "connections s = {h1}" and "storage s (switch_handle s) = [1]"
  shows "irq (GattsWrite h1 (switch_handle s)) s =
       Inr (s\<lparr>storage := (storage s)(switch_handle s := [0xE8, 0x03, 0x01]),
              trace := trace s @ [Gatts_read (switch_handle s),
                                  Gatts_write (switch_handle s) [0xE8, 0x03, 0x01],
                                  Gatts_notify h1 (switch_handle s),
                                  Led_rouge_on],
              led_rouge := True\<rparr>)
     \<and> count_list (new_effects s (state_after (irq (GattsWrite h1 (switch_handle s)) s)))
          Led_rouge_on = 1
     \<and> storage (state_after (irq (GattsWrite h1 (switch_handle s)) s)) (switch_handle s)
          = le_u16 1000 @ [0x01]
     \<and> filter is_notify (new_effects s (state_after (irq (GattsWrite h1 (switch_handle s)) s)))
          = [Gatts_notify h1 (switch_handle s)]"
proof -
  from assms(1) have "h1 \<in> connections s" by simp
  from irq_write_accepted [OF this assms(2)]
  show ?thesis
    by (simp add: state_after_def new_effects_def le_u16_def)
qed

text \<open>Central 7 connects to a fresh object and writes 1.\<close>

theorem switch_on_write_witness:
  "irq (GattsWrite 7 2)
      (stack_store 2 [1] (replay [Event (CentralConnect 7 0 [])]
         (BLESensor 1 2 [] empty_storage (False, False))))
    = Inr (stack_store 2 [1] (replay [Event (CentralConnect 7 0 [])]
         (BLESensor 1 2 [] empty_storage (False, False)))
        \<lparr>storage := (empty_storage(2 := [1]))(2 := [0xE8, 0x03, 0x01]),
          trace := [Gap_advertise 500000 [] True, Led_bleu_off, Print Adresse_MAC,
                    Print Connecte_a_un_central, Led_bleu_on,
                    Gatts_read 2, Gatts_write 2 [0xE8, 0x03, 0x01], Gatts_notify 7 2,
                    Led_rouge_on],
          led_rouge := True\<rparr>)"
proof -
  let ?s = "stack_store 2 [1] (replay [Event (CentralConnect 7 0 [])]
         (BLESensor 1 2 [] empty_storage (False, False)))"
  have c: "connections ?s = {7}"
    by (simp add: stack_store_def replay_def BLESensor_def state_after_def stack_defs)
  have v: "storage ?s (switch_handle ?s) = [1]"
    by (simp add: stack_store_def replay_def BLESensor_def state_after_def stack_defs)
  have sw: "switch_handle ?s = 2"
    by (simp add: stack_store_def replay_def BLESensor_def state_after_def stack_defs)
  have st: "storage ?s = empty_storage(2 := [1])"
    by (simp add: stack_store_def replay_def BLESensor_def state_after_def stack_defs)
  have tr: "trace ?s = [Gap_advertise 500000 [] True, Led_bleu_off, Print Adresse_MAC,
                    Print Connecte_a_un_central, Led_bleu_on]"
    by (simp add: stack_store_def replay_def BLESensor_def state_after_def stack_defs)
  from switch_on_write [OF c v] show ?thesis
    unfolding sw st tr by simp
qed

text \<open>
  C5, as the code has it. For every accepted write event whose stored value is not
  empty the calls are, in this order: read the stored bytes, write the acknowledgement
  built from byte 0 into the same characteristic, notify the connection the write came
  from, and only then switch the red LED (the notification comes before the side
  effect).
\<close>

theorem write_steps_in_order:
  assumes "c \<in> connections s" and "storage s (switch_handle s) = b0 # rest"
  shows "new_effects s (state_after (irq (GattsWrite c (switch_handle s)) s)) =
       [Gatts_read (switch_handle s),
        Gatts_write (switch_handle s) (pack_lt_HB 1000 b0),
        Gatts_notify c (switch_handle s),
        if b0 = 1 then Led_rouge_on else Led_rouge_off]"
  using irq_write_accepted [OF assms]
  by (simp add: state_after_def new_effects_def pack_lt_HB_1000)

text \<open>Central 7 connects and writes 0.\<close>

theorem write_steps_in_order_witness:
  "new_effects
      (stack_store 2 [0] (replay [Event (CentralConnect 7 0 [])]
         (BLESensor 1 2 [] empty_storage (False, False))))
      (state_after (irq (GattsWrite 7 2)
         (stack_store 2 [0] (replay [Event (CentralConnect 7 0 [])]
            (BLESensor 1 2 [] empty_storage (False, False))))))
    = [Gatts_read 2, Gatts_write 2 [0xE8, 0x03, 0x00], Gatts_notify 7 2, Led_rouge_off]"
proof -
  let ?s = "stack_store 2 [0] (replay [Event (CentralConnect 7 0 [])]
         (BLESensor 1 2 [] empty_storage (False, False)))"
  have c: "7 \<in> connections ?s"
    by (simp add: stack_store_def replay_def BLESensor_def state_after_def stack_defs)
  have v: "storage ?s (switch_handle ?s) = [0]"
    by (simp add: stack_store_def replay_def BLESensor_def state_after_def stack_defs)
  have sw: "switch_handle ?s = 2"
    by (simp add: stack_store_def replay_def BLESensor_def state_after_def stack_defs)
  from write_steps_in_order [OF c v] show ?thesis
    unfolding sw by (simp add: pack_lt_HB_1000)
qed

text \<open>
  The claim as the specification states it (the side effect happens before the
  notification) fails when central 7 writes 1: the LED is the last of the four effects,
  and no switching of the LED stands before the notification.
\<close>

theorem side_effect_before_notify_counterexample:
  "new_effects
      (stack_store 2 [1] (replay [Event (CentralConnect 7 0 [])]
         (BLESensor 1 2 [] empty_storage (False, False))))
      (state_after (irq (GattsWrite 7 2)
         (stack_store 2 [1] (replay [Event (CentralConnect 7 0 [])]
            (BLESensor 1 2 [] empty_storage (False, False))))))
    = [Gatts_read 2, Gatts_write 2 [0xE8, 0x03, 0x01], Gatts_notify 7 2, Led_rouge_on]
   \<and> \<not> occurs_before Led_rouge_on (Gatts_notify 7 2)
        (new_effects
          (stack_store 2 [1] (replay [Event (CentralConnect 7 0 [])]
             (BLESensor 1 2 [] empty_storage (False, False))))
          (state_after (irq (GattsWrite 7 2)
             (stack_store 2 [1] (replay [Event (CentralConnect 7 0 [])]
                (BLESensor 1 2 [] empty_storage (False, False)))))))"
  by (simp add: stack_store_def replay_def BLESensor_def state_after_def stack_defs
      new_effects_def Let_def pack_lt_HB_1000)

text \<open>
  C7, as the code has it. The handler reads one byte, so the only value too short for
  it is the empty one. For every accepted write event whose stored value is empty,
  \<^verbatim>\<open>data_received[0]\<close> raises \<^verbatim>\<open>IndexError\<close>, which leaves \<^verbatim>\<open>_irq\<close>; the storage is
  not changed, the LED is not switched and nothing is notified: the read of the
  storage is the only effect.
\<close>

theorem short_payload_raises:
  assumes "c \<in> connections s" and "storage s (switch_handle s) = []"
  shows "irq (GattsWrite c (switch_handle s)) s
       = Inl (IndexError, emit (Gatts_read (switch_handle s)) s)
     \<and> raised (irq (GattsWrite c (switch_handle s)) s) = Some IndexError
     \<and> storage (state_after (irq (GattsWrite c (switch_handle s)) s)) = storage s
     \<and> led_rouge (state_after (irq (GattsWrite c (switch_handle s)) s)) = led_rouge s
     \<and> new_effects s (state_after (irq (GattsWrite c (switch_handle s)) s))
         = [Gatts_read (switch_handle s)]"
  using irq_write_empty [OF assms]
  by (simp add: state_after_def new_effects_def raised_def emit_def)

text \<open>Central 7 connects and a write event arrives while the stored value is empty.\<close>

theorem short_payload_raises_witness:
  "raised (irq (GattsWrite 7 2)
      (replay [Event (CentralConnect 7 0 [])]
         (BLESensor 1 2 [] empty_storage (False, False))))
    = Some IndexError
  \<and> storage (state_after (irq (GattsWrite 7 2)
      (replay [Event (CentralConnect 7 0 [])]
         (BLESensor 1 2 [] empty_storage (False, False))))) 2 = []"
proof -
  let ?s = "replay [Event (CentralConnect 7 0 [])]
         (BLESensor 1 2 [] empty_storage (False, False))"
  have c: "7 \<in> connections ?s"
    by (simp add: replay_def BLESensor_def state_after_def stack_defs)
  have v: "storage ?s (switch_handle ?s) = []"
    by (simp add: replay_def BLESensor_def state_after_def stack_defs empty_storage_def)
  have sw: "switch_handle ?s = 2"
    by (simp add: replay_def BLESensor_def state_after_def stack_defs)
  have st: "storage ?s 2 = []"
    by (simp add: replay_def BLESensor_def state_after_def stack_defs empty_storage_def)
  have r: "raised (irq (GattsWrite 7 2) ?s) = Some IndexError
      \<and> storage (state_after (irq (GattsWrite 7 2) ?s)) = storage ?s"
    using short_payload_raises [OF c v] unfolding sw by blast
  then show ?thesis by (simp add: st del: irq.simps)
qed

text \<open>
  The claim as the specification states it (a no-op that propagates no failure) fails
  there: the callback raises \<^verbatim>\<open>IndexError\<close>.
\<close>

theorem short_payload_counterexample:
  "irq (GattsWrite 7 2)
      (replay [Event (CentralConnect 7 0 [])]
         (BLESensor 1 2 [] empty_storage (False, False)))
    = Inl (IndexError,
        emit (Gatts_read 2) (replay [Event (CentralConnect 7 0 [])]
         (BLESensor 1 2 [] empty_storage (False, False))))"
  by (simp add: replay_def BLESensor_def state_after_def stack_defs empty_storage_def Let_def)

text \<open>
  C10. For every accepted write event whose stored value has at least one byte, the
  result is a function of byte 0 alone: the red LED is on afterwards if and only if
  byte 0 is 1, the bytes after it appear nowhere in the resulting state, and byte 0 is
  the last byte of the acknowledgement.
\<close>

theorem switch_depends_on_byte_0:
  assumes "c \<in> connections s" and "storage s (switch_handle s) = b0 # rest"
  shows "irq (GattsWrite c (switch_handle s)) s =
       Inr (s\<lparr>storage := (storage s)(switch_handle s := [0xE8, 0x03, b0]),
              trace := trace s @ [Gatts_read (switch_handle s),
                                  Gatts_write (switch_handle s) [0xE8, 0x03, b0],
                                  Gatts_notify c (switch_handle s),
                                  if b0 = 1 then Led_rouge_on else Led_rouge_off],
              led_rouge := (b0 = 1)\<rparr>)
     \<and> led_rouge (state_after (irq (GattsWrite c (switch_handle s)) s)) = (b0 = 1)
     \<and> storage (state_after (irq (GattsWrite c (switch_handle s)) s)) (switch_handle s)
         = le_u16 1000 @ [b0]"
  using irq_write_accepted [OF assms]
  by (simp add: state_after_def le_u16_def)

text \<open>Central 7 writes the bytes 2, 1, 1 while the red LED is on: it goes off.\<close>

theorem switch_depends_on_byte_0_witness:
  "led_rouge (state_after (irq (GattsWrite 7 2)
      (stack_store 2 [2, 1, 1] (replay [Event (CentralConnect 7 0 [])]
         (BLESensor 1 2 [] empty_storage (False, True)))))) = False
   \<and> storage (state_after (irq (GattsWrite 7 2)
      (stack_store 2 [2, 1, 1] (replay [Event (CentralConnect 7 0 [])]
         (BLESensor 1 2 [] empty_storage (False, True)))))) 2 = [0xE8, 0x03, 0x02]"
proof -
  let ?s = "stack_store 2 [2, 1, 1] (replay [Event (CentralConnect 7 0 [])]
         (BLESensor 1 2 [] empty_storage (False, True)))"
  have c: "7 \<in> connections ?s"
    by (simp add: stack_store_def replay_def BLESensor_def state_after_def stack_defs)
  have v: "storage ?s (switch_handle ?s) = 2 # [1, 1]"
    by (simp add: stack_store_def replay_def BLESensor_def state_after_def stack_defs)
  have sw: "switch_handle ?s = 2"
    by (simp add: stack_store_def replay_def BLESensor_def state_after_def stack_defs)
  have r: "led_rouge (state_after (irq (GattsWrite 7 2) ?s)) = (2 = (1 :: byte))
      \<and> storage (state_after (irq (GattsWrite 7 2) ?s)) 2 = le_u16 1000 @ [2]"
    using switch_depends_on_byte_0 [OF c v] unfolding sw by blast
  then show ?thesis by (simp add: le_u16_def del: irq.simps)
qed

end
